theory Spec2Isabelle
  imports Main "HOL-Library.AList"
begin

section \<open>Values, strings and exceptions\<close>

text \<open>
  A Python value as it appears in session attributes, in a custom payload and in the
  inbound event: \<open>None\<close>, a boolean, an integer, a string, a list or a dictionary
  (an association list, in insertion order). Floating-point numbers are left out.
  A string is a list of 8-bit characters; \<open>lower\<close> is \<open>str.lower()\<close> on the ASCII
  letters and leaves every other character as it is.
\<close>

datatype pyval =
    PNone
  | PBool bool
  | PInt int
  | PStr string
  | PList "pyval list"
  | PDict "(string \<times> pyval) list"

definition lower_char :: "char \<Rightarrow> char" where
  "lower_char c =
     (case map_of (zip ''ABCDEFGHIJKLMNOPQRSTUVWXYZ'' ''abcdefghijklmnopqrstuvwxyz'') c of
        Some d \<Rightarrow> d
      | None \<Rightarrow> c)"

definition lower :: "string \<Rightarrow> string" where
  "lower s = map lower_char s"

definition isupper :: "char \<Rightarrow> bool" where
  "isupper c = (c \<in> set ''ABCDEFGHIJKLMNOPQRSTUVWXYZ'')"

text \<open>
  The exceptions that the code raises or tells apart. \<open>IntentNotFoundError\<close> and
  \<open>ImportError\<close> are caught by name; \<open>ValueError\<close> is raised by the orchestrator and
  by the intent resolver; \<open>OtherException\<close> stands for every other subclass of
  \<open>Exception\<close>, among them the plain \<open>Exception\<close> of the formatting stage.
\<close>

datatype exn =
    IntentNotFoundError string
  | ImportError string
  | ValueError string
  | OtherException string

section \<open>Message model\<close>

record button =
  btn_text :: string
  btn_value :: string

record image_response_card =
  title :: string
  subtitle :: "string option"
  imageUrl :: "string option"
  buttons :: "button list"

text \<open>
  The message classes of \<open>lex_helper.core.types\<close> by their class: the formatting
  stage dispatches on \<open>type(message)\<close>.
\<close>

datatype message =
    PlainText string
  | LexPlainText string
  | LexSSML string
  | LexImageResponseCard image_response_card
  | LexCustomPayload pyval

section \<open>Requests and responses\<close>

record dialog_action =
  da_type :: string

record intent_r =
  intent_name :: string
  intent_state :: "string option"
  slots :: "(string \<times> pyval) list"

record active_context =
  ctx_name :: string
  contextAttributes :: "(string \<times> string) list"
  timeToLiveInSeconds :: nat
  turnsToLive :: nat

record session_state =
  dialogAction :: "dialog_action option"
  intent :: "intent_r option"
  sessionAttributes :: "(string \<times> pyval) list"
  activeContexts :: "active_context list option"

text \<open>\<open>LexResponse\<close>: what a handler returns.\<close>

record response =
  sessionState :: session_state
  messages :: "message list"
  requestAttributes :: "(string \<times> string) list option"

text \<open>\<open>LexRequest\<close>: the parsed turn event, \<open>lex_payload\<close> in the orchestrator.\<close>

record request =
  sessionId :: string
  inputTranscript :: string
  localeId :: string
  rq_sessionState :: session_state
  rq_requestAttributes :: "(string \<times> string) list option"

text \<open>
  The dictionary that \<open>format_for_channel\<close> returns (\<open>model_dump\<close> of the response),
  and that \<open>_create_minimal_error_response\<close> builds by hand.
\<close>

record lex_output =
  out_sessionState :: session_state
  out_messages :: "message list"
  out_requestAttributes :: "(string \<times> string) list option"

section \<open>External collaborators\<close>

text \<open>
  A handler receives the request object and may change it in place before it returns
  or raises, so it is a function from the request to its outcome and the request
  afterwards.
\<close>

type_synonym 'a action = "request \<Rightarrow> (exn + 'a) \<times> request"

text \<open>
  An imported intent module: its attribute \<open>handler\<close>, when the module has one and it
  is a function.
\<close>

record pymodule =
  mod_handler :: "response action option"

record analysis =
  should_disambiguate :: bool
  candidates :: "pyval list"

text \<open>
  What the code calls and the sources at hand do not define: the interpreter's \<open>repr\<close>
  on values other than strings, \<open>json.dumps\<close> on a list of strings,
  \<open>importlib.import_module\<close>,
  \<open>handle_exceptions\<close> (exception, request, optional error message), the helpers of
  \<open>lex_helper.core.dialog\<close>, the disambiguation components, the two request parsers
  (\<open>parse_lex_request\<close> and the constructor \<open>LexRequest(**event)\<close>) and the message
  catalogue lookup \<open>get_message\<close>.
\<close>

record env =
  repr :: "pyval \<Rightarrow> string"
  json_dumps :: "string list \<Rightarrow> string"
  import_module :: "string \<Rightarrow> exn + pymodule"
  handle_exceptions :: "exn \<Rightarrow> request \<Rightarrow> string option \<Rightarrow> response"
  get_intent :: "request \<Rightarrow> exn + intent_r"
  any_unknown_slot_choices :: "request \<Rightarrow> exn + bool"
  handle_any_unknown_slot_choice :: "response action"
  disambiguation_available :: bool
  process_disambiguation_response :: "response option action"
  analyze_request :: "request \<Rightarrow> exn + analysis"
  handle_disambiguation :: "pyval list \<Rightarrow> response action"
  parse_lex_request :: "pyval \<Rightarrow> (string \<times> pyval) list \<Rightarrow> exn + request"
  LexRequest_of_event :: "pyval \<Rightarrow> exn + request"
  get_message :: "string \<Rightarrow> exn + string"

text \<open>\<open>str(v)\<close>: a string is its own \<open>str\<close>, every other value prints as its \<open>repr\<close>.\<close>

definition py_str :: "env \<Rightarrow> pyval \<Rightarrow> string" where
  "py_str E v = (case v of PStr s \<Rightarrow> s | _ \<Rightarrow> repr E v)"

section \<open>Channels\<close>

datatype channel = SMSChannel | LexChannel

text \<open>\<open>_get_channel\<close>: a dictionary lookup on the lower-cased name, with a default.\<close>

definition channels :: "string \<rightharpoonup> channel" where
  "channels = [''sms'' \<mapsto> SMSChannel, ''lex'' \<mapsto> LexChannel]"

definition get_channel :: "string \<Rightarrow> channel" where
  "get_channel channel_string =
     (case channels (lower channel_string) of
        Some c \<Rightarrow> c
      | None \<Rightarrow> LexChannel)"

text \<open>
  Modelled from the spec: \<open>Channel.format_plain_text\<close> and \<open>Channel.format_ssml_text\<close>
  of \<open>lex_helper/channels/base.py\<close>, which is absent from the sources, and their possible
  overrides in \<open>SMSChannel\<close>: "PlainText/SpeechMarkup pass through unchanged".
  \<open>LexChannel\<close> calls the base implementation.
\<close>

definition channel_format_plain_text :: "channel \<Rightarrow> message \<Rightarrow> message" where
  "channel_format_plain_text ch message = message"

definition channel_format_ssml_text :: "channel \<Rightarrow> message \<Rightarrow> message" where
  "channel_format_ssml_text ch message = message"

text \<open>
  \<open>LexChannel.format_image_card\<close>: the textual rendering of a card. An \<open>if x:\<close> on an
  optional string is false for \<open>None\<close> and for the empty string.
\<close>

definition truthy :: "string option \<Rightarrow> bool" where
  "truthy x = (case x of None \<Rightarrow> False | Some s \<Rightarrow> s \<noteq> [])"

fun join :: "string \<Rightarrow> string list \<Rightarrow> string" where
  "join sep [] = []"
| "join sep [x] = x"
| "join sep (x # y # ys) = x @ sep @ join sep (y # ys)"

definition button_text :: "button \<Rightarrow> string" where
  "button_text btn = ''['' @ btn_text btn @ '' -> '' @ btn_value btn @ '']''"

definition lex_format_image_card :: "image_response_card \<Rightarrow> message" where
  "lex_format_image_card c =
     (let parts = [title c];
          parts = (if truthy (subtitle c) then parts @ [the (subtitle c)] else parts);
          parts = (if truthy (imageUrl c)
                   then parts @ [''Image: '' @ the (imageUrl c)] else parts);
          parts = (if buttons c \<noteq> []
                   then parts @ [''Buttons: '' @ join '' '' (map button_text (buttons c))]
                   else parts)
      in LexPlainText (join [CHR 0x0A] parts))"

text \<open>
  \<open>LexChannel.format_custom_payload\<close> returns a bare string (\<open>Inl\<close>) for a dictionary
  with a \<open>text\<close> or a \<open>message\<close> key, and a custom payload otherwise.
\<close>

definition lex_format_custom_payload :: "env \<Rightarrow> pyval \<Rightarrow> string + message" where
  "lex_format_custom_payload E content =
     (case content of
        PDict d \<Rightarrow>
          (case map_of d ''text'' of
             Some v \<Rightarrow> Inl (py_str E v)
           | None \<Rightarrow>
               (case map_of d ''message'' of
                  Some v \<Rightarrow> Inl (py_str E v)
                | None \<Rightarrow> Inr (LexCustomPayload (PStr (py_str E content)))))
      | _ \<Rightarrow> Inr (LexCustomPayload (PStr (py_str E content))))"

text \<open>
  \<open>LexChannel.format_message\<close>: the \<open>isinstance\<close> chain. \<open>PlainText\<close> is taken as a
  class of its own, none of the four classes tested.
\<close>

definition lex_format_message :: "env \<Rightarrow> message \<Rightarrow> string + message" where
  "lex_format_message E message =
     (case message of
        LexSSML s \<Rightarrow> Inr (channel_format_ssml_text LexChannel message)
      | LexPlainText s \<Rightarrow> Inr (channel_format_plain_text LexChannel message)
      | LexImageResponseCard c \<Rightarrow> Inr (lex_format_image_card c)
      | LexCustomPayload content \<Rightarrow> lex_format_custom_payload E content
      | PlainText s \<Rightarrow> Inr (LexPlainText ''Unsupported message type''))"

section \<open>The formatting pipeline\<close>

text \<open>
  Modelled from the spec: \<open>add_to_list\<close> of \<open>lex_helper/utils/add_to_list.py\<close>, which is
  absent from the sources: a formatter yields "exactly one channel-appropriate output
  message", added at the end of the list.
\<close>

definition add_to_list :: "message list \<Rightarrow> message \<Rightarrow> message list" where
  "add_to_list lst item = lst @ [item]"

type_synonym formatter = "message \<Rightarrow> channel \<Rightarrow> string list \<Rightarrow> message list \<Rightarrow> message list"

definition format_plain_text :: formatter where
  "format_plain_text message channel options_provided formatted_messages =
     add_to_list formatted_messages (channel_format_plain_text channel message)"

definition format_ssml_text :: formatter where
  "format_ssml_text message channel options_provided formatted_messages =
     add_to_list formatted_messages (channel_format_ssml_text channel message)"

definition format_image_card :: formatter where
  "format_image_card message channel options_provided formatted_messages =
     add_to_list formatted_messages message"

text \<open>\<open>content_process_map.get(type(message))\<close>.\<close>

definition content_process_map :: "message \<Rightarrow> formatter option" where
  "content_process_map message =
     (case message of
        PlainText s \<Rightarrow> Some format_plain_text
      | LexPlainText s \<Rightarrow> Some format_plain_text
      | LexImageResponseCard c \<Rightarrow> Some format_image_card
      | LexSSML s \<Rightarrow> Some format_ssml_text
      | LexCustomPayload content \<Rightarrow> None)"

text \<open>The loop over \<open>response.messages\<close>; the first message without a formatter raises.\<close>

fun format_messages :: "channel \<Rightarrow> string list \<Rightarrow> message list \<Rightarrow> message list \<Rightarrow> exn + message list" where
  "format_messages channel options_provided [] formatted_messages = Inr formatted_messages"
| "format_messages channel options_provided (message # rest) formatted_messages =
     (case content_process_map message of
        Some fn \<Rightarrow>
          format_messages channel options_provided rest
            (fn message channel options_provided formatted_messages)
      | None \<Rightarrow> Inl (OtherException ''No formatter was found for this message type''))"

text \<open>
  The single-card step: taken when the list has one element and it is an image card.
  The test does not look at the channel.
\<close>

definition is_image_card :: "message \<Rightarrow> bool" where
  "is_image_card m = (case m of LexImageResponseCard c \<Rightarrow> True | _ \<Rightarrow> False)"

definition blank_title :: "message \<Rightarrow> message" where
  "blank_title m =
     (case m of LexImageResponseCard c \<Rightarrow> LexImageResponseCard (c\<lparr>title := '' ''\<rparr>) | _ \<Rightarrow> m)"

definition card_title :: "message \<Rightarrow> string" where
  "card_title m = (case m of LexImageResponseCard c \<Rightarrow> title c | _ \<Rightarrow> [])"

definition single_card_step :: "message list \<Rightarrow> message list" where
  "single_card_step formatted_messages =
     (if length formatted_messages = 1 \<and> is_image_card (formatted_messages ! 0)
      then [LexPlainText (card_title (formatted_messages ! 0)),
            blank_title (formatted_messages ! 0)]
      else formatted_messages)"

text \<open>
  \<open>model_dump(exclude_none=True)\<close> on the session attributes drops the attributes that
  are \<open>None\<close>; \<open>_stringify_session_attributes\<close> then replaces the value at every key by
  its \<open>str\<close>.
\<close>

definition dump_session_attributes :: "(string \<times> pyval) list \<Rightarrow> (string \<times> pyval) list" where
  "dump_session_attributes attrs = filter (\<lambda>kv. snd kv \<noteq> PNone) attrs"

definition stringify_session_attributes :: "env \<Rightarrow> (string \<times> pyval) list \<Rightarrow> (string \<times> pyval) list" where
  "stringify_session_attributes E attrs = map (\<lambda>kv. (fst kv, PStr (py_str E (snd kv)))) attrs"

text \<open>
  \<open>format_for_channel\<close>. No formatter adds to \<open>options_provided\<close>, which is created
  empty here and handed to the formatters only, so the \<open>json.dumps\<close> branch is written
  with the list as it is at that point.
\<close>

definition format_for_channel :: "env \<Rightarrow> response \<Rightarrow> string \<Rightarrow> exn + lex_output" where
  "format_for_channel E response channel_string =
     (let channel = get_channel channel_string;
          options_provided = []
      in case format_messages channel options_provided (messages response) [] of
           Inl e \<Rightarrow> Inl e
         | Inr formatted_messages \<Rightarrow>
             (let formatted_messages = single_card_step formatted_messages;
                  attrs = sessionAttributes (sessionState response);
                  attrs = (if length options_provided > 0
                           then AList.update ''options_provided''
                                  (PStr (json_dumps E options_provided)) attrs
                           else attrs);
                  dumped = dump_session_attributes attrs
              in Inr \<lparr>out_sessionState =
                        (sessionState response)
                          \<lparr>sessionAttributes := stringify_session_attributes E dumped\<rparr>,
                      out_messages = formatted_messages,
                      out_requestAttributes = requestAttributes response\<rparr>))"

section \<open>Intent resolution\<close>

text \<open>
  Modelled from the spec: \<open>title_to_snake\<close> of \<open>lex_helper/utils/string.py\<close>, which is
  absent from the sources: the name "is converted from a capitalized-words form to a
  separator form (e.g. "OrderPizza" \<rightarrow> "order_pizza")". Every capital letter starts a
  word; the words are lower-cased and joined by underscores.
\<close>

fun snake_tail :: "string \<Rightarrow> string" where
  "snake_tail [] = []"
| "snake_tail (c # cs) =
     (if isupper c then CHR ''_'' # lower_char c # snake_tail cs else c # snake_tail cs)"

definition title_to_snake :: "string \<Rightarrow> string" where
  "title_to_snake s = (case s of [] \<Rightarrow> [] | c # cs \<Rightarrow> lower_char c # snake_tail cs)"

text \<open>
  A word of a capitalized-words name: a capital letter, then characters that are not
  capital letters.
\<close>

definition capitalized_word :: "string \<Rightarrow> bool" where
  "capitalized_word w =
     (case w of [] \<Rightarrow> False | c # cs \<Rightarrow> isupper c \<and> list_all (\<lambda>x. \<not> isupper x) cs)"

text \<open>The module path that \<open>call_handler_for_file\<close> imports.\<close>

definition package_or_default :: "string option \<Rightarrow> string" where
  "package_or_default package_name =
     (case package_name of None \<Rightarrow> ''fulfillment_function'' | Some p \<Rightarrow> p)"

definition file_to_import :: "string option \<Rightarrow> string \<Rightarrow> string" where
  "file_to_import package_name nm =
     package_or_default package_name @ ''.intents.'' @
       (if CHR ''_'' \<in> set nm then lower nm else title_to_snake nm)"

definition is_intent_not_found :: "exn \<Rightarrow> bool" where
  "is_intent_not_found e = (case e of IntentNotFoundError m \<Rightarrow> True | _ \<Rightarrow> False)"

definition is_import_error :: "exn \<Rightarrow> bool" where
  "is_import_error e = (case e of ImportError m \<Rightarrow> True | _ \<Rightarrow> False)"

text \<open>
  The body of the outer \<open>try\<close> of \<open>call_handler_for_file\<close>: import, look the handler
  function up, call it with the request.
\<close>

definition resolve_and_call :: "env \<Rightarrow> string \<Rightarrow> string option \<Rightarrow> response action" where
  "resolve_and_call E nm package_name lex_request =
     (case import_module E (file_to_import package_name nm) of
        Inl e \<Rightarrow>
          (if is_import_error e
           then (Inl (IntentNotFoundError ''Unable to find handler for intent''), lex_request)
           else (Inl e, lex_request))
      | Inr module \<Rightarrow>
          (case mod_handler module of
             None \<Rightarrow>
               (Inl (ValueError (''Error: Unable to load handler, ''
                                  @ file_to_import package_name nm
                                  @ ''.py does not have a '' @ [CHR 0x27] @ ''handler''
                                  @ [CHR 0x27] @ '' function.'')),
                lex_request)
           | Some handler_func \<Rightarrow> handler_func lex_request))"

text \<open>
  \<open>call_handler_for_file\<close>: \<open>IntentNotFoundError\<close> is raised again; every other
  exception becomes the response of \<open>handle_exceptions(e, lex_request)\<close>.
\<close>

definition call_handler_for_file :: "env \<Rightarrow> string \<Rightarrow> request \<Rightarrow> string option \<Rightarrow> (exn + response) \<times> request" where
  "call_handler_for_file E nm lex_request package_name =
     (case resolve_and_call E nm package_name lex_request of
        (Inr result, rq) \<Rightarrow> (Inr result, rq)
      | (Inl e, rq) \<Rightarrow>
          (if is_intent_not_found e then (Inl e, rq)
           else (Inr (handle_exceptions E e rq None), rq)))"

section \<open>The orchestrator\<close>

record config =
  session_attributes :: "(string \<times> pyval) list"
  package_name :: "string option"
  auto_initialize_messages :: bool
  auto_handle_exceptions :: bool
  error_message :: "string option"
  enable_disambiguation :: bool

text \<open>\<open>Config\<close> with the defaults of its fields.\<close>

definition default_config :: "(string \<times> pyval) list \<Rightarrow> config" where
  "default_config attrs =
     \<lparr>session_attributes = attrs,
      package_name = Some ''fulfillment_function'',
      auto_initialize_messages = True,
      auto_handle_exceptions = True,
      error_message = None,
      enable_disambiguation = False\<rparr>"

text \<open>\<open>sub in s\<close> on strings.\<close>

fun starts_with :: "string \<Rightarrow> string \<Rightarrow> bool" where
  "starts_with s [] = True"
| "starts_with [] (x # xs) = False"
| "starts_with (c # cs) (x # xs) = (c = x \<and> starts_with cs xs)"

fun contains :: "string \<Rightarrow> string \<Rightarrow> bool" where
  "contains [] sub = (sub = [])"
| "contains (c # cs) sub = (starts_with (c # cs) sub \<or> contains cs sub)"

definition transition_to_exit :: active_context where
  "transition_to_exit =
     \<lparr>ctx_name = ''transition_to_exit'', contextAttributes = [],
      timeToLiveInSeconds = 900, turnsToLive = 20\<rparr>"

text \<open>
  \<open>regular_intent_handler\<close>: records the intent name in the session attributes, installs
  the exit context, and resolves the intent. It returns a response or raises.
\<close>

definition regular_intent_handler :: "env \<Rightarrow> config \<Rightarrow> response option action" where
  "regular_intent_handler E cfg lex_payload =
     (case get_intent E lex_payload of
        Inl e \<Rightarrow> (Inl e, lex_payload)
      | Inr it \<Rightarrow>
          (let ss = rq_sessionState lex_payload;
               ss = ss\<lparr>sessionAttributes :=
                          AList.update ''lex_intent'' (PStr (intent_name it)) (sessionAttributes ss)\<rparr>;
               ss = (if \<not> contains (intent_name it) ''Common_Exit_Feedback''
                     then ss\<lparr>activeContexts := Some [transition_to_exit]\<rparr> else ss);
               lex_payload = lex_payload\<lparr>rq_sessionState := ss\<rparr>
           in case any_unknown_slot_choices E lex_payload of
                Inl e \<Rightarrow> (Inl e, lex_payload)
              | Inr True \<Rightarrow>
                  (case handle_any_unknown_slot_choice E lex_payload of
                     (Inl e, rq) \<Rightarrow> (Inl e, rq)
                   | (Inr response, rq) \<Rightarrow> (Inr (Some response), rq))
              | Inr False \<Rightarrow>
                  (case intent (rq_sessionState lex_payload) of
                     None \<Rightarrow> (Inl (OtherException ''AttributeError''), lex_payload)
                   | Some it' \<Rightarrow>
                       (case call_handler_for_file E (intent_name it') lex_payload (package_name cfg) of
                          (Inl e, rq) \<Rightarrow> (Inl e, rq)
                        | (Inr response, rq) \<Rightarrow> (Inr (Some response), rq)))))"

text \<open>
  \<open>disambiguation_intent_handler\<close>. The handler and the analyzer objects exist when
  disambiguation is enabled in the configuration and its components could be imported.
\<close>

definition has_disambiguation :: "env \<Rightarrow> config \<Rightarrow> bool" where
  "has_disambiguation E cfg = (enable_disambiguation cfg \<and> disambiguation_available E)"

definition disambiguation_intent_handler :: "env \<Rightarrow> config \<Rightarrow> response option action" where
  "disambiguation_intent_handler E cfg lex_payload =
     (if \<not> has_disambiguation E cfg then (Inr None, lex_payload)
      else case process_disambiguation_response E lex_payload of
             (Inl e, rq) \<Rightarrow> (Inl e, rq)
           | (Inr (Some disambiguation_response), rq) \<Rightarrow> (Inr (Some disambiguation_response), rq)
           | (Inr None, rq) \<Rightarrow>
               (case analyze_request E rq of
                  Inl e \<Rightarrow> (Inl e, rq)
                | Inr analysis_result \<Rightarrow>
                    (if should_disambiguate analysis_result \<and> candidates analysis_result \<noteq> []
                     then case handle_disambiguation E (candidates analysis_result) rq of
                            (Inl e, rq') \<Rightarrow> (Inl e, rq')
                          | (Inr response, rq') \<Rightarrow> (Inr (Some response), rq')
                     else (Inr None, rq))))"

text \<open>
  The loop over the handlers: a response stops it, \<open>None\<close> moves on,
  \<open>IntentNotFoundError\<close> is raised again, and after any other exception the loop
  continues with the next handler.
\<close>

fun run_handlers :: "response option action list \<Rightarrow> response option action" where
  "run_handlers [] lex_payload = (Inr None, lex_payload)"
| "run_handlers (message_handler # rest) lex_payload =
     (case message_handler lex_payload of
        (Inr (Some response), rq) \<Rightarrow> (Inr (Some response), rq)
      | (Inr None, rq) \<Rightarrow> run_handlers rest rq
      | (Inl e, rq) \<Rightarrow>
          (if is_intent_not_found e then (Inl e, rq) else run_handlers rest rq))"

definition handlers :: "env \<Rightarrow> config \<Rightarrow> response option action list" where
  "handlers E cfg =
     (if has_disambiguation E cfg then [disambiguation_intent_handler E cfg] else [])
     @ [regular_intent_handler E cfg]"

text \<open>
  The callback step. \<open>lex_payload.requestAttributes\<close> and \<open>response.requestAttributes\<close>
  are one dictionary, so \<open>pop\<close> removes the key from both.
\<close>

definition has_callback :: "(string \<times> string) list option \<Rightarrow> bool" where
  "has_callback ra = (case ra of None \<Rightarrow> False | Some d \<Rightarrow> map_of d ''callback'' \<noteq> None)"

definition pop_callback :: "(string \<times> string) list \<Rightarrow> (string \<times> string) list" where
  "pop_callback d = filter (\<lambda>kv. fst kv \<noteq> ''callback'') d"

definition run_callback :: "env \<Rightarrow> config \<Rightarrow> response \<Rightarrow> request \<Rightarrow> (exn + response) \<times> request" where
  "run_callback E cfg response lex_payload =
     (let lex_payload = lex_payload\<lparr>rq_sessionState := sessionState response,
                                   rq_requestAttributes := requestAttributes response\<rparr>;
          msgs = [] @ messages response
      in if has_callback (requestAttributes response)
         then (let d = the (requestAttributes response);
                   callback_name = the (map_of d ''callback'');
                   lex_payload = lex_payload\<lparr>rq_requestAttributes := Some (pop_callback d)\<rparr>
               in case call_handler_for_file E callback_name lex_payload (package_name cfg) of
                    (Inl e, rq) \<Rightarrow> (Inl e, rq)
                  | (Inr response2, rq) \<Rightarrow>
                      (Inr (response2\<lparr>messages := msgs @ messages response2\<rparr>),
                       rq\<lparr>rq_sessionState := sessionState response2\<rparr>))
         else (Inr (response\<lparr>messages := msgs\<rparr>), lex_payload))"

text \<open>The \<open>try\<close> block of \<open>_main_handler\<close>.\<close>

definition dispatch :: "env \<Rightarrow> config \<Rightarrow> request \<Rightarrow> (exn + response) \<times> request" where
  "dispatch E cfg lex_payload =
     (case get_intent E lex_payload of
        Inl e \<Rightarrow> (Inl e, lex_payload)
      | Inr lex_intent \<Rightarrow>
          (case run_handlers (handlers E cfg) lex_payload of
             (Inl e, rq) \<Rightarrow> (Inl e, rq)
           | (Inr None, rq) \<Rightarrow>
               (Inl (ValueError (''Unable to find handler for intent: '' @ intent_name lex_intent)), rq)
           | (Inr (Some response), rq) \<Rightarrow> run_callback E cfg response rq))"

text \<open>
  \<open>_main_handler\<close>: its \<open>except\<close> clauses around the block, then the formatting for
  the channel \<open>lex\<close>.
\<close>

definition main_response :: "env \<Rightarrow> config \<Rightarrow> request \<Rightarrow> exn + response" where
  "main_response E cfg lex_payload =
     (case dispatch E cfg lex_payload of
        (Inr response, rq) \<Rightarrow> Inr response
      | (Inl e, rq) \<Rightarrow>
          (if is_intent_not_found e then Inl e else Inr (handle_exceptions E e rq None)))"

definition main_handler :: "env \<Rightarrow> config \<Rightarrow> request \<Rightarrow> exn + lex_output" where
  "main_handler E cfg lex_payload =
     (case main_response E cfg lex_payload of
        Inl e \<Rightarrow> Inl e
      | Inr response \<Rightarrow> format_for_channel E response ''lex'')"

text \<open>
  \<open>_handle_request_with_auto_exception_handling\<close>. \<open>_initialize_message_manager\<close> catches
  every exception and returns nothing; what it sets is the locale that \<open>get_message\<close>
  reads.
\<close>

definition handle_request_with_auto_exception_handling :: "env \<Rightarrow> config \<Rightarrow> pyval \<Rightarrow> exn + lex_output" where
  "handle_request_with_auto_exception_handling E cfg event =
     (case parse_lex_request E event (session_attributes cfg) of
        Inl e \<Rightarrow> Inl e
      | Inr lex_payload \<Rightarrow> main_handler E cfg lex_payload)"

text \<open>\<open>_create_minimal_error_response\<close>: a dictionary built by hand.\<close>

definition default_error_message :: string where
  "default_error_message =
     ''I'' @ [CHR 0x27]
     @ ''m sorry, I encountered an error while processing your request. Please try again.''"

definition create_minimal_error_response :: "env \<Rightarrow> config \<Rightarrow> lex_output" where
  "create_minimal_error_response E cfg =
     (let msg = (if truthy (error_message cfg)
                 then (case get_message E (the (error_message cfg)) of
                         Inr m \<Rightarrow> m
                       | Inl msg_error \<Rightarrow> the (error_message cfg))
                 else default_error_message)
      in \<lparr>out_sessionState =
            \<lparr>dialogAction = Some \<lparr>da_type = ''Close''\<rparr>,
             intent = Some \<lparr>intent_name = ''FallbackIntent'', intent_state = Some ''Failed'',
                            slots = []\<rparr>,
             sessionAttributes = [],
             activeContexts = None\<rparr>,
          out_messages = [LexPlainText msg],
          out_requestAttributes = None\<rparr>)"

text \<open>\<open>LexHelper.handler\<close>, the entry point.\<close>

definition handler :: "env \<Rightarrow> config \<Rightarrow> pyval \<Rightarrow> exn + lex_output" where
  "handler E cfg event =
     (if auto_handle_exceptions cfg
      then (case handle_request_with_auto_exception_handling E cfg event of
              Inr out \<Rightarrow> Inr out
            | Inl e \<Rightarrow>
                (case LexRequest_of_event E event of
                   Inl parse_error \<Rightarrow> Inr (create_minimal_error_response E cfg)
                 | Inr lex_request \<Rightarrow>
                     format_for_channel E
                       (handle_exceptions E e lex_request (error_message cfg)) ''lex''))
      else handle_request_with_auto_exception_handling E cfg event)"

section \<open>Concrete collaborators and inputs\<close>

text \<open>
  Modelled from the spec: \<open>handle_exceptions\<close> of \<open>lex_helper/exceptions/handlers.py\<close>,
  which is absent from the sources: the exception becomes "a closing dialog action with
  a generic or configured apology message".
\<close>

definition closing_response :: "exn \<Rightarrow> request \<Rightarrow> string option \<Rightarrow> response" where
  "closing_response e lex_request msg =
     \<lparr>sessionState = (rq_sessionState lex_request)\<lparr>dialogAction := Some \<lparr>da_type = ''Close''\<rparr>\<rparr>,
      messages = [LexPlainText (case msg of Some m \<Rightarrow> m | None \<Rightarrow> default_error_message)],
      requestAttributes = rq_requestAttributes lex_request\<rparr>"



definition is_string :: "pyval \<Rightarrow> bool" where
  "is_string v = (case v of PStr s \<Rightarrow> True | _ \<Rightarrow> False)"

text \<open>Handlers of an application, for evaluating the orchestrator.\<close>

definition say :: "string \<Rightarrow> response action" where
  "say t lex_request =
     (Inr \<lparr>sessionState = rq_sessionState lex_request,
           messages = [LexPlainText t],
           requestAttributes = rq_requestAttributes lex_request\<rparr>,
      lex_request)"

definition say_with_callback :: "string \<Rightarrow> string \<Rightarrow> response action" where
  "say_with_callback t cb lex_request =
     (Inr \<lparr>sessionState = rq_sessionState lex_request,
           messages = [LexPlainText t],
           requestAttributes =
             Some (AList.update ''callback'' cb
                     (case rq_requestAttributes lex_request of None \<Rightarrow> [] | Some d \<Rightarrow> d))\<rparr>,
      lex_request)"

definition raising :: "exn \<Rightarrow> 'a action" where
  "raising e lex_request = (Inl e, lex_request)"

definition failing :: "string \<Rightarrow> 'a action" where
  "failing t = raising (OtherException t)"

definition sample_import_module :: "string \<Rightarrow> exn + pymodule" where
  "sample_import_module path =
     (if path = ''fulfillment_function.intents.order_pizza''
      then Inr \<lparr>mod_handler = Some (say_with_callback ''Ordered'' ''ConfirmOrder'')\<rparr>
      else if path = ''fulfillment_function.intents.confirm_order''
      then Inr \<lparr>mod_handler = Some (say_with_callback ''Confirmed'' ''Again'')\<rparr>
      else if path = ''fulfillment_function.intents.greet''
      then Inr \<lparr>mod_handler = Some (say ''Hello'')\<rparr>
      else if path = ''fulfillment_function.intents.broken''
      then Inr \<lparr>mod_handler = Some (failing ''boom'')\<rparr>
      else Inl (ImportError path))"

definition session_intent :: "request \<Rightarrow> exn + intent_r" where
  "session_intent lex_request =
     (case intent (rq_sessionState lex_request) of
        None \<Rightarrow> Inl (ValueError ''no intent'')
      | Some it \<Rightarrow> Inr it)"

definition sample_repr :: "pyval \<Rightarrow> string" where
  "sample_repr v =
     (case v of
        PNone \<Rightarrow> ''None''
      | PBool b \<Rightarrow> (if b then ''True'' else ''False'')
      | PList xs \<Rightarrow> (if xs = [] then ''[]'' else ''[...]'')
      | PDict d \<Rightarrow> (if d = [] then ''{}'' else ''{...}'')
      | _ \<Rightarrow> ''...'')"

definition sample_env :: env where
  "sample_env =
     \<lparr>repr = sample_repr,
      json_dumps = (\<lambda>xs. ''[...]''),
      import_module = sample_import_module,
      handle_exceptions = closing_response,
      get_intent = session_intent,
      any_unknown_slot_choices = (\<lambda>rq. Inr False),
      handle_any_unknown_slot_choice = say ''Please choose again'',
      disambiguation_available = False,
      process_disambiguation_response = (\<lambda>rq. (Inr None, rq)),
      analyze_request = (\<lambda>rq. Inr \<lparr>should_disambiguate = False, candidates = []\<rparr>),
      handle_disambiguation = (\<lambda>cs. say ''Which one?''),
      parse_lex_request = (\<lambda>event attrs. Inl (ValueError ''validation error'')),
      LexRequest_of_event = (\<lambda>event. Inl (ValueError ''validation error'')),
      get_message = (\<lambda>key. Inl (OtherException key))\<rparr>"

text \<open>The same collaborators with a slot check that raises.\<close>

definition slot_check_fails_env :: env where
  "slot_check_fails_env =
     sample_env\<lparr>any_unknown_slot_choices := (\<lambda>rq. Inl (OtherException ''slot check failed''))\<rparr>"

definition sample_session :: "string \<Rightarrow> session_state" where
  "sample_session nm =
     \<lparr>dialogAction = None,
      intent = Some \<lparr>intent_name = nm, intent_state = None, slots = []\<rparr>,
      sessionAttributes = [(''visits'', PInt 3), (''vip'', PBool True),
                           (''cart'', PDict [(''size'', PStr ''large'')]), (''note'', PNone),
                           (''city'', PStr ''Oslo'')],
      activeContexts = None\<rparr>"

definition sample_request :: "string \<Rightarrow> request" where
  "sample_request nm =
     \<lparr>sessionId = ''s1'', inputTranscript = ''hello'', localeId = ''en_US'',
      rq_sessionState = sample_session nm, rq_requestAttributes = None\<rparr>"

definition choose_card :: image_response_card where
  "choose_card =
     \<lparr>title = ''Choose'', subtitle = Some ''Pick one'', imageUrl = None,
      buttons = [\<lparr>btn_text = ''Pizza'', btn_value = ''pizza''\<rparr>,
                 \<lparr>btn_text = ''Pasta'', btn_value = ''pasta''\<rparr>]\<rparr>"

definition sample_response :: "message list \<Rightarrow> response" where
  "sample_response ms =
     \<lparr>sessionState = sample_session ''OrderPizza'', messages = ms, requestAttributes = None\<rparr>"

text \<open>
  The session state after \<open>regular_intent_handler\<close> has recorded the intent
  \<open>OrderPizza\<close> and installed the exit context.
\<close>

definition ordered_session :: session_state where
  "ordered_session =
     (sample_session ''OrderPizza'')
       \<lparr>sessionAttributes :=
          sessionAttributes (sample_session ''OrderPizza'') @ [(''lex_intent'', PStr ''OrderPizza'')],
        activeContexts := Some [transition_to_exit]\<rparr>"

text \<open>
  The request after \<open>regular_intent_handler\<close> has recorded the intent and installed the
  exit context.
\<close>

definition routed_request :: "string \<Rightarrow> request" where
  "routed_request nm =
     (sample_request nm)
       \<lparr>rq_sessionState :=
          (sample_session nm)
            \<lparr>sessionAttributes :=
               sessionAttributes (sample_session nm) @ [(''lex_intent'', PStr nm)],
             activeContexts := Some [transition_to_exit]\<rparr>\<rparr>"

text \<open>
  Collaborators and a configuration with disambiguation enabled, where the disambiguation
  handler raises.
\<close>

definition disambiguation_fails_env :: env where
  "disambiguation_fails_env =
     sample_env\<lparr>disambiguation_available := True,
                process_disambiguation_response := raising (OtherException ''analysis failed'')\<rparr>"

definition disambiguation_config :: config where
  "disambiguation_config = (default_config [])\<lparr>enable_disambiguation := True\<rparr>"

section \<open>Channel selection\<close>

text \<open>
  Claim C10. For every channel name, \<open>_get_channel\<close> returns a channel and never fails:
  the name is compared in lower case with the two known names, \<open>sms\<close> selects the SMS
  channel, and every other name, \<open>lex\<close> and the unknown ones alike, selects the Lex
  channel. Two names that agree up to case select the same channel.
\<close>

theorem get_channel_selection:
  "get_channel s = (if lower s = ''sms'' then SMSChannel else LexChannel) \<and>
   (lower s = lower t \<longrightarrow> get_channel s = get_channel t)"
  by (simp add: get_channel_def channels_def)

theorem get_channel_selection_witness:
  "get_channel ''SmS'' = SMSChannel \<and> get_channel ''SmS'' = get_channel ''sms'' \<and>
   get_channel ''Telegram'' = LexChannel"
proof -
  have l: "lower ''SmS'' = ''sms''" "lower ''sms'' = ''sms''" "lower ''Telegram'' \<noteq> ''sms''"
    by (simp_all add: lower_def lower_char_def)
  from get_channel_selection [of "''SmS''" "''sms''"]
       get_channel_selection [of "''Telegram''" "''lex''"] l
  show ?thesis by auto
qed

section \<open>The formatting pipeline\<close>

text \<open>
  Only a custom payload has no formatter, and every formatter adds the message itself at
  the end of the list, whatever the channel.
\<close>

lemma format_messages_append:
  "format_messages ch opts ms acc =
     (if \<exists>c. LexCustomPayload c \<in> set ms
      then Inl (OtherException ''No formatter was found for this message type'')
      else Inr (acc @ ms))"
proof (induction ms arbitrary: acc)
  case Nil
  then show ?case by simp
next
  case (Cons m ms)
  show ?case
    by (cases m)
       (auto simp: Cons content_process_map_def format_plain_text_def format_ssml_text_def
          format_image_card_def add_to_list_def channel_format_plain_text_def
          channel_format_ssml_text_def)
qed

text \<open>
  Whatever the channel string, a response whose only message is an image card comes out
  as a plain-text message with the card's title followed by the card with a blank title.
\<close>

lemma single_card_any_channel:
  assumes "messages response = [LexImageResponseCard c]"
  shows "map_sum id out_messages (format_for_channel E response channel_string) =
           Inr [LexPlainText (title c), LexImageResponseCard (c\<lparr>title := '' ''\<rparr>)]"
  using assms
  by (simp add: format_for_channel_def format_messages_append Let_def single_card_step_def
        is_image_card_def card_title_def blank_title_def)

text \<open>
  The step changes the list exactly when the list is a single image card, and then into
  the title as plain text followed by the card with a blank title.
\<close>

lemma single_card_step_iff:
  "(single_card_step ms \<noteq> ms) = (\<exists>c. ms = [LexImageResponseCard c]) \<and>
   single_card_step [LexImageResponseCard c] =
     [LexPlainText (title c), LexImageResponseCard (c\<lparr>title := '' ''\<rparr>)]"
proof -
  have "single_card_step ms \<noteq> ms" if "ms = [LexImageResponseCard c']" for c'
    using that by (simp add: single_card_step_def is_image_card_def)
  moreover have "\<exists>c'. ms = [LexImageResponseCard c']" if "single_card_step ms \<noteq> ms"
  proof -
    from that have l: "length ms = 1" and i: "is_image_card (ms ! 0)"
      by (auto simp: single_card_step_def split: if_splits)
    from l obtain m where ms: "ms = [m]" by (cases ms) auto
    with i show ?thesis by (cases m) (auto simp: is_image_card_def)
  qed
  ultimately show ?thesis
    by (auto simp: single_card_step_def is_image_card_def card_title_def blank_title_def)
qed

text \<open>
  Claim C1. The single-card rewrite is meant for the Lex channel alone: the comment above
  the test says "If the channel is Lex". The test itself does not look at the channel, so
  a single image card formatted for \<open>sms\<close> is rewritten too: the title is prepended as
  plain text and the card's title becomes a single space.
\<close>

theorem sms_single_card_is_rewritten:
  "get_channel ''sms'' = SMSChannel \<and>
   map_sum id out_messages
     (format_for_channel sample_env (sample_response [LexImageResponseCard choose_card]) ''sms'') =
   Inr [LexPlainText ''Choose'', LexImageResponseCard (choose_card\<lparr>title := '' ''\<rparr>)]"
  by (simp add: format_for_channel_def format_messages_append Let_def single_card_step_def
        is_image_card_def card_title_def blank_title_def sample_response_def choose_card_def
        get_channel_def channels_def lower_def lower_char_def)

text \<open>
  The only textual rendering of a card in the sources is \<open>LexChannel.format_image_card\<close>,
  reached through \<open>LexChannel.format_message\<close> and not through \<open>format_for_channel\<close>.
\<close>

lemma lex_format_image_card_text:
  "lex_format_message E (LexImageResponseCard choose_card) =
     Inr (LexPlainText (''Choose'' @ [CHR 0x0A] @ ''Pick one'' @ [CHR 0x0A]
                        @ ''Buttons: [Pizza -> pizza] [Pasta -> pasta]''))"
  by (simp add: lex_format_message_def lex_format_image_card_def choose_card_def truthy_def
        button_text_def Let_def)

text \<open>
  Claim C6. The formatter for image cards does not consult the channel, unlike the
  formatters for plain text and for speech markup: on the SMS channel an image card is
  not turned into plain text, it passes through as it is.
\<close>

theorem sms_image_card_not_degraded:
  "get_channel ''sms'' = SMSChannel \<and>
   map_sum id out_messages
     (format_for_channel sample_env
        (sample_response [LexPlainText ''Menu'', LexImageResponseCard choose_card]) ''sms'') =
   Inr [LexPlainText ''Menu'', LexImageResponseCard choose_card]"
  by (simp add: format_for_channel_def format_messages_append Let_def single_card_step_def
        sample_response_def get_channel_def channels_def lower_def lower_char_def)

text \<open>
  Claim C7, as stated, fails in \<open>format_for_channel\<close>: no formatter is registered for a
  custom payload, so a dictionary with a \<open>text\<close> key is not unwrapped, the formatting
  raises.
\<close>

theorem custom_payload_unformatted_counterexample:
  "format_for_channel sample_env
     (sample_response [LexCustomPayload (PDict [(''text'', PStr ''hi'')])]) ''lex'' =
   Inl (OtherException ''No formatter was found for this message type'')"
  by (simp add: format_for_channel_def format_messages_append Let_def sample_response_def)

text \<open>
  Claim C7, amended. \<open>LexChannel.format_message\<close> on a custom payload returns the \<open>str\<close>
  of the value at \<open>text\<close> when the content is a dictionary with that key, else the \<open>str\<close>
  of the value at \<open>message\<close> when it has that key, both as a bare string and not as a
  message; otherwise it returns a custom payload whose content is the \<open>str\<close> of the
  original content. The \<open>str\<close> of a string value is the string itself.
\<close>

theorem custom_payload_formatting:
  "lex_format_message E (LexCustomPayload content) =
     (case content of
        PDict d \<Rightarrow>
          (if ''text'' \<in> fst ` set d then Inl (py_str E (the (map_of d ''text'')))
           else if ''message'' \<in> fst ` set d then Inl (py_str E (the (map_of d ''message'')))
           else Inr (LexCustomPayload (PStr (py_str E content))))
      | _ \<Rightarrow> Inr (LexCustomPayload (PStr (py_str E content)))) \<and>
   py_str E (PStr s) = s"
proof -
  have keys: "(k \<in> fst ` set d) = (map_of d k \<noteq> None)" for d :: "(string \<times> pyval) list" and k
    by (simp add: map_of_eq_None_iff)
  have "lex_format_message E (LexCustomPayload content) =
     (case content of
        PDict d \<Rightarrow>
          (if ''text'' \<in> fst ` set d then Inl (py_str E (the (map_of d ''text'')))
           else if ''message'' \<in> fst ` set d then Inl (py_str E (the (map_of d ''message'')))
           else Inr (LexCustomPayload (PStr (py_str E content))))
      | _ \<Rightarrow> Inr (LexCustomPayload (PStr (py_str E content))))"
    unfolding keys
    by (auto simp: lex_format_message_def lex_format_custom_payload_def
        split: pyval.splits option.splits)
  then show ?thesis by (simp add: py_str_def)
qed

theorem custom_payload_formatting_witness:
  "lex_format_message sample_env
     (LexCustomPayload (PDict [(''message'', PStr ''later''), (''text'', PStr ''hi'')])) = Inl ''hi'' \<and>
   lex_format_message sample_env (LexCustomPayload (PStr ''raw'')) =
     Inr (LexCustomPayload (PStr ''raw''))"
  using custom_payload_formatting
          [of sample_env "PDict [(''message'', PStr ''later''), (''text'', PStr ''hi'')]" "''hi''"]
        custom_payload_formatting [of sample_env "PStr ''raw''" "''raw''"]
  by simp

text \<open>
  Claim C8. Whenever \<open>format_for_channel\<close> returns, every value of the session
  attributes in the result is a string, whatever the type of the value in the response,
  and the keys of the result are the keys of the dumped attributes, in their order: the
  coercion reaches every key.
\<close>

theorem session_attributes_all_strings:
  assumes "format_for_channel E response channel_string = Inr out"
  shows "list_all (\<lambda>kv. is_string (snd kv)) (sessionAttributes (out_sessionState out)) \<and>
         map fst (sessionAttributes (out_sessionState out)) =
           map fst (filter (\<lambda>kv. snd kv \<noteq> PNone) (sessionAttributes (sessionState response)))"
  using assms
  by (auto simp: format_for_channel_def Let_def stringify_session_attributes_def
        dump_session_attributes_def is_string_def list_all_iff o_def
      split: sum.splits)

theorem session_attributes_all_strings_witness:
  "list_all (\<lambda>kv. is_string (snd kv))
     (sessionAttributes (out_sessionState
        (projr (format_for_channel sample_env (sample_response [LexPlainText ''Hi'']) ''lex''))))"
proof -
  have "\<exists>out. format_for_channel sample_env (sample_response [LexPlainText ''Hi'']) ''lex'' = Inr out"
    by (simp add: format_for_channel_def format_messages_append Let_def sample_response_def)
  then obtain out where
    h: "format_for_channel sample_env (sample_response [LexPlainText ''Hi'']) ''lex'' = Inr out"
    by blast
  from session_attributes_all_strings [OF h] show ?thesis
    by (simp add: h)
qed

section \<open>Intent resolution\<close>

lemma lower_char_id: "\<not> isupper c \<Longrightarrow> lower_char c = c"
proof -
  assume "\<not> isupper c"
  then have "map_of (zip ''ABCDEFGHIJKLMNOPQRSTUVWXYZ'' ''abcdefghijklmnopqrstuvwxyz'') c = None"
    unfolding isupper_def by (subst map_of_zip_is_None) simp_all
  then show ?thesis by (simp add: lower_char_def)
qed

lemma snake_tail_plain:
  "list_all (\<lambda>x. \<not> isupper x) cs \<Longrightarrow> snake_tail (cs @ rest) = cs @ snake_tail rest"
  by (induction cs) auto

lemma lower_plain: "list_all (\<lambda>x. \<not> isupper x) cs \<Longrightarrow> lower cs = cs"
  by (induction cs) (auto simp: lower_def lower_char_id)


lemma snake_tail_words:
  "list_all capitalized_word ws \<Longrightarrow>
   snake_tail (concat ws) = concat (map (\<lambda>w. CHR ''_'' # lower w) ws)"
proof (induction ws)
  case Nil
  then show ?case by simp
next
  case (Cons w ws)
  then obtain c cs where w: "w = c # cs" and c: "isupper c"
    and cs: "list_all (\<lambda>x. \<not> isupper x) cs"
    by (cases w) (auto simp: capitalized_word_def)
  have "lower w = lower_char c # cs"
    using lower_plain [OF cs] by (simp add: w lower_def)
  with Cons c cs show ?case
    by (simp add: w snake_tail_plain)
qed

lemma join_cons: "join sep (x # xs) = x @ concat (map (\<lambda>w. sep @ w) xs)"
  by (induction xs arbitrary: x) auto

lemma title_to_snake_words:
  assumes "ws \<noteq> []" and "list_all capitalized_word ws"
  shows "title_to_snake (concat ws) = join ''_'' (map lower ws)"
proof -
  from assms obtain w rest where ws: "ws = w # rest" by (cases ws) auto
  with assms obtain c cs where w: "w = c # cs" and cs: "list_all (\<lambda>x. \<not> isupper x) cs"
    by (cases w) (auto simp: capitalized_word_def)
  have rest: "list_all capitalized_word rest" using assms ws by simp
  have lw: "lower w = lower_char c # cs"
    using lower_plain [OF cs] by (simp add: w lower_def)
  have "title_to_snake (concat ws) = lower_char c # snake_tail (cs @ concat rest)"
    by (simp add: ws w title_to_snake_def)
  also have "\<dots> = lower w @ concat (map (\<lambda>w. CHR ''_'' # lower w) rest)"
    by (simp add: snake_tail_plain [OF cs] snake_tail_words [OF rest] lw)
  also have "\<dots> = join ''_'' (map lower ws)"
    by (simp add: ws join_cons o_def)
  finally show ?thesis .
qed

text \<open>
  Claim C5. A name with an underscore is imported under its lower-cased form; a name
  without one under its \<open>title_to_snake\<close> form, which for a name made of capitalized
  words is the lower-cased words joined by underscores. Both follow the package name and
  \<open>.intents.\<close>.
\<close>

theorem intent_name_normalisation:
  "(CHR ''_'' \<in> set nm \<longrightarrow>
      file_to_import pkg nm = package_or_default pkg @ ''.intents.'' @ lower nm) \<and>
   (CHR ''_'' \<notin> set nm \<longrightarrow>
      file_to_import pkg nm = package_or_default pkg @ ''.intents.'' @ title_to_snake nm) \<and>
   (ws \<noteq> [] \<and> list_all capitalized_word ws \<and> CHR ''_'' \<notin> set (concat ws) \<longrightarrow>
      file_to_import pkg (concat ws) =
        package_or_default pkg @ ''.intents.'' @ join ''_'' (map lower ws))"
proof -
  have "file_to_import pkg (concat ws) =
          package_or_default pkg @ ''.intents.'' @ join ''_'' (map lower ws)"
    if "ws \<noteq> []" "list_all capitalized_word ws" "CHR ''_'' \<notin> set (concat ws)"
    using that title_to_snake_words [of ws] unfolding file_to_import_def by simp
  then show ?thesis
    by (auto simp: file_to_import_def)
qed

theorem intent_name_normalisation_witness:
  "file_to_import None ''Foo_Bar'' = ''fulfillment_function.intents.foo_bar'' \<and>
   file_to_import (Some ''bot'') ''GetWeather'' = ''bot.intents.'' @ title_to_snake ''GetWeather'' \<and>
   file_to_import None ''OrderPizza'' = ''fulfillment_function.intents.order_pizza''"
proof -
  note foo = intent_name_normalisation [of "''Foo_Bar''" None "[''Order'', ''Pizza'']"]
  note get = intent_name_normalisation [of "''GetWeather''" "Some ''bot''" "[''Get'', ''Weather'']"]
  have a: "file_to_import None ''Foo_Bar'' = ''fulfillment_function.intents.foo_bar''"
    using foo by (simp add: lower_def lower_char_def package_or_default_def)
  have "CHR ''_'' \<notin> set ''GetWeather''" by simp
  with get have "file_to_import (Some ''bot'') ''GetWeather'' =
      package_or_default (Some ''bot'') @ ''.intents.'' @ title_to_snake ''GetWeather''"
    by blast
  then have b: "file_to_import (Some ''bot'') ''GetWeather'' =
      ''bot.intents.'' @ title_to_snake ''GetWeather''"
    by (simp add: package_or_default_def)
  have "[''Order'', ''Pizza''] \<noteq> [] \<and> list_all capitalized_word [''Order'', ''Pizza''] \<and>
        CHR ''_'' \<notin> set (concat [''Order'', ''Pizza''])"
    by (simp add: capitalized_word_def isupper_def)
  with foo have "file_to_import None (concat [''Order'', ''Pizza'']) =
      package_or_default None @ ''.intents.'' @ join ''_'' (map lower [''Order'', ''Pizza''])"
    by blast
  then have c: "file_to_import None ''OrderPizza'' = ''fulfillment_function.intents.order_pizza''"
    by (simp add: lower_def lower_char_def package_or_default_def)
  from a b c show ?thesis by blast
qed

lemma path_greet: "file_to_import None ''Greet'' = ''fulfillment_function.intents.greet''"
  by (simp add: file_to_import_def package_or_default_def title_to_snake_def isupper_def
        lower_char_def)

lemma path_broken: "file_to_import None ''Broken'' = ''fulfillment_function.intents.broken''"
  by (simp add: file_to_import_def package_or_default_def title_to_snake_def isupper_def
        lower_char_def)

text \<open>
  Claim C4, as stated, fails: an exception of the handler other than
  \<open>IntentNotFoundError\<close> does not leave \<open>call_handler_for_file\<close>, which returns the
  response of \<open>handle_exceptions\<close> in its place.
\<close>

theorem handler_exception_swallowed_counterexample:
  "call_handler_for_file sample_env ''Broken'' (sample_request ''Broken'') None =
     (Inr (closing_response (OtherException ''boom'') (sample_request ''Broken'') None),
      sample_request ''Broken'')"
  by (simp add: call_handler_for_file_def resolve_and_call_def path_broken sample_env_def
        sample_import_module_def failing_def raising_def is_intent_not_found_def)

text \<open>
  Claim C4, amended. When the module of the intent is found and has a handler function,
  the handler is called with the current request; what it returns is returned; an
  \<open>IntentNotFoundError\<close> it raises is raised unchanged; any other exception it raises is
  turned, at this layer, into the response \<open>handle_exceptions(e, lex_request)\<close>.
\<close>

theorem resolver_converts_handler_exceptions:
  assumes "import_module E (file_to_import pkg nm) = Inr m" and "mod_handler m = Some h"
  shows "call_handler_for_file E nm rq pkg =
           (case h rq of
              (Inr result, rq') \<Rightarrow> (Inr result, rq')
            | (Inl e, rq') \<Rightarrow>
                (if is_intent_not_found e then (Inl e, rq')
                 else (Inr (handle_exceptions E e rq' None), rq')))"
  using assms
  by (simp add: call_handler_for_file_def resolve_and_call_def split: prod.splits sum.splits)

theorem resolver_converts_handler_exceptions_witness:
  "call_handler_for_file sample_env ''Greet'' (sample_request ''Greet'') None =
     say ''Hello'' (sample_request ''Greet'')"
proof -
  have i: "import_module sample_env (file_to_import None ''Greet'') =
             Inr \<lparr>mod_handler = Some (say ''Hello'')\<rparr>"
    by (simp add: path_greet sample_env_def sample_import_module_def)
  from resolver_converts_handler_exceptions [OF i, of "say ''Hello''" "sample_request ''Greet''"]
  show ?thesis by (simp add: say_def)
qed

section \<open>The handler chain\<close>

text \<open>Handlers that declined hand the request on to the rest of the chain.\<close>

lemma run_handlers_append:
  "run_handlers pre p = (Inr None, rq0) \<Longrightarrow> run_handlers (pre @ hs) p = run_handlers hs rq0"
proof (induction pre arbitrary: p)
  case Nil
  then show ?case by simp
next
  case (Cons h pre)
  obtain out rq where h: "h p = (out, rq)" by (cases "h p")
  show ?case
  proof (cases out)
    case (Inl e)
    with Cons h show ?thesis by (simp split: if_splits)
  next
    case (Inr r)
    with Cons h show ?thesis by (cases r) simp_all
  qed
qed

text \<open>
  Claim C3, as stated, fails in its last part: with the regular handler as the only and
  last handler of the chain, an exception it raises other than \<open>IntentNotFoundError\<close>
  ends the loop without a response, as a decline would, and the exception that reaches
  the \<open>except\<close> clauses of \<open>_main_handler\<close> is the \<open>ValueError\<close> raised after the loop,
  not the handler's own.
\<close>

theorem last_handler_exception_counterexample:
  "handlers slot_check_fails_env (default_config []) =
     [regular_intent_handler slot_check_fails_env (default_config [])] \<and>
   fst (regular_intent_handler slot_check_fails_env (default_config []) (sample_request ''Greet'')) =
     Inl (OtherException ''slot check failed'') \<and>
   fst (run_handlers (handlers slot_check_fails_env (default_config [])) (sample_request ''Greet'')) =
     Inr None \<and>
   fst (dispatch slot_check_fails_env (default_config []) (sample_request ''Greet'')) =
     Inl (ValueError ''Unable to find handler for intent: Greet'')"
proof -
  have hs: "handlers slot_check_fails_env (default_config []) =
     [regular_intent_handler slot_check_fails_env (default_config [])]"
    by (simp add: handlers_def has_disambiguation_def default_config_def)
  have gi: "get_intent slot_check_fails_env (sample_request ''Greet'') =
              Inr \<lparr>intent_name = ''Greet'', intent_state = None, slots = []\<rparr>"
    by (simp add: slot_check_fails_env_def sample_env_def session_intent_def sample_request_def
          sample_session_def)
  have r: "fst (regular_intent_handler slot_check_fails_env (default_config []) (sample_request ''Greet'')) =
     Inl (OtherException ''slot check failed'')"
    by (simp add: regular_intent_handler_def gi Let_def)
       (simp add: slot_check_fails_env_def)
  from r obtain rq where rr:
    "regular_intent_handler slot_check_fails_env (default_config []) (sample_request ''Greet'') =
       (Inl (OtherException ''slot check failed''), rq)"
    by (cases "regular_intent_handler slot_check_fails_env (default_config [])
                 (sample_request ''Greet'')") auto
  have c': "run_handlers (handlers slot_check_fails_env (default_config [])) (sample_request ''Greet'') =
     (Inr None, rq)"
    by (simp add: hs rr is_intent_not_found_def)
  then have c: "fst (run_handlers (handlers slot_check_fails_env (default_config []))
                  (sample_request ''Greet'')) = Inr None"
    by simp
  have d: "fst (dispatch slot_check_fails_env (default_config []) (sample_request ''Greet'')) =
     Inl (ValueError ''Unable to find handler for intent: Greet'')"
    by (simp add: dispatch_def gi c')
  from hs r c d show ?thesis by blast
qed

text \<open>
  Claim C3, amended. Let the handlers before some handler of the chain have declined, and
  let that handler raise. If it raises \<open>IntentNotFoundError\<close>, the whole turn ends with
  that exception at once: \<open>_main_handler\<close> raises it and formats nothing. Any other
  exception is treated as a decline, for the last handler as for the others: the chain
  goes on with the handlers that remain, and after the last handler it ends without a
  response, the turn fails with the \<open>ValueError\<close> "Unable to find handler for intent",
  and \<open>_main_handler\<close> formats the response of \<open>handle_exceptions\<close> for that
  \<open>ValueError\<close>.
\<close>

theorem handler_chain_exceptions:
  assumes intent: "get_intent E p = Inr lex_intent"
    and chain: "handlers E cfg = pre @ message_handler # rest"
    and declined: "run_handlers pre p = (Inr None, rq0)"
    and raised: "message_handler rq0 = (Inl e, rq)"
  shows "(is_intent_not_found e \<longrightarrow>
            run_handlers (handlers E cfg) p = (Inl e, rq) \<and>
            main_response E cfg p = Inl e \<and> main_handler E cfg p = Inl e) \<and>
         (\<not> is_intent_not_found e \<longrightarrow>
            run_handlers (handlers E cfg) p = run_handlers rest rq) \<and>
         (\<not> is_intent_not_found e \<and> rest = [] \<longrightarrow>
            run_handlers (handlers E cfg) p = (Inr None, rq) \<and>
            dispatch E cfg p =
              (Inl (ValueError (''Unable to find handler for intent: '' @ intent_name lex_intent)), rq) \<and>
            main_response E cfg p =
              Inr (handle_exceptions E
                     (ValueError (''Unable to find handler for intent: '' @ intent_name lex_intent))
                     rq None) \<and>
            main_handler E cfg p =
              format_for_channel E
                (handle_exceptions E
                   (ValueError (''Unable to find handler for intent: '' @ intent_name lex_intent))
                   rq None) ''lex'')"
proof -
  have run: "run_handlers (handlers E cfg) p =
               (if is_intent_not_found e then (Inl e, rq) else run_handlers rest rq)"
    using run_handlers_append [OF declined, of "message_handler # rest"] raised
    by (simp add: chain)
  have abort: "main_response E cfg p = Inl e \<and> main_handler E cfg p = Inl e"
    if "is_intent_not_found e"
    using that run intent by (simp add: main_handler_def main_response_def dispatch_def)
  have last: "dispatch E cfg p =
              (Inl (ValueError (''Unable to find handler for intent: '' @ intent_name lex_intent)), rq) \<and>
            main_response E cfg p =
              Inr (handle_exceptions E
                     (ValueError (''Unable to find handler for intent: '' @ intent_name lex_intent))
                     rq None) \<and>
            main_handler E cfg p =
              format_for_channel E
                (handle_exceptions E
                   (ValueError (''Unable to find handler for intent: '' @ intent_name lex_intent))
                   rq None) ''lex''"
    if "\<not> is_intent_not_found e" "rest = []"
    using that run intent
    by (simp add: main_handler_def main_response_def dispatch_def is_intent_not_found_def)
  from run abort last show ?thesis by simp
qed

theorem handler_chain_exceptions_witness:
  "main_handler sample_env (default_config []) (sample_request ''Unknown'') =
     Inl (IntentNotFoundError ''Unable to find handler for intent'') \<and>
   run_handlers (handlers disambiguation_fails_env disambiguation_config) (sample_request ''Greet'') =
     run_handlers [regular_intent_handler disambiguation_fails_env disambiguation_config]
       (sample_request ''Greet'') \<and>
   main_response slot_check_fails_env (default_config []) (sample_request ''Greet'') =
     Inr (closing_response (ValueError ''Unable to find handler for intent: Greet'')
            (routed_request ''Greet'') None)"
proof -
  let ?cfg = "default_config []"
  have nil: "run_handlers [] p = (Inr None, p)" for p by simp
  have gu: "get_intent sample_env (sample_request ''Unknown'') =
              Inr \<lparr>intent_name = ''Unknown'', intent_state = None, slots = []\<rparr>"
    by code_simp
  have cu: "handlers sample_env ?cfg = [] @ regular_intent_handler sample_env ?cfg # []"
    by (simp add: handlers_def has_disambiguation_def default_config_def)
  have ru: "regular_intent_handler sample_env ?cfg (sample_request ''Unknown'') =
              (Inl (IntentNotFoundError ''Unable to find handler for intent''),
               routed_request ''Unknown'')"
    by code_simp
  have iu: "is_intent_not_found (IntentNotFoundError ''Unable to find handler for intent'')"
    by (simp add: is_intent_not_found_def)
  note a = handler_chain_exceptions [OF gu cu nil ru]
  have gd: "get_intent disambiguation_fails_env (sample_request ''Greet'') =
              Inr \<lparr>intent_name = ''Greet'', intent_state = None, slots = []\<rparr>"
    by code_simp
  have cd: "handlers disambiguation_fails_env disambiguation_config =
              [] @ disambiguation_intent_handler disambiguation_fails_env disambiguation_config
                 # [regular_intent_handler disambiguation_fails_env disambiguation_config]"
    by (simp add: handlers_def has_disambiguation_def default_config_def
          disambiguation_config_def disambiguation_fails_env_def sample_env_def)
  have rd: "disambiguation_intent_handler disambiguation_fails_env disambiguation_config
              (sample_request ''Greet'') =
              (Inl (OtherException ''analysis failed''), sample_request ''Greet'')"
    by code_simp
  have nd: "\<not> is_intent_not_found (OtherException ''analysis failed'')"
    by (simp add: is_intent_not_found_def)
  note b = handler_chain_exceptions [OF gd cd nil rd]
  have gs: "get_intent slot_check_fails_env (sample_request ''Greet'') =
              Inr \<lparr>intent_name = ''Greet'', intent_state = None, slots = []\<rparr>"
    by code_simp
  have cs: "handlers slot_check_fails_env ?cfg = [] @ regular_intent_handler slot_check_fails_env ?cfg # []"
    by (simp add: handlers_def has_disambiguation_def default_config_def)
  have rs: "regular_intent_handler slot_check_fails_env ?cfg (sample_request ''Greet'') =
              (Inl (OtherException ''slot check failed''), routed_request ''Greet'')"
    by code_simp
  have ns: "\<not> is_intent_not_found (OtherException ''slot check failed'')"
    by (simp add: is_intent_not_found_def)
  have hs: "handle_exceptions slot_check_fails_env = closing_response"
    by (simp add: slot_check_fails_env_def sample_env_def)
  note c = handler_chain_exceptions [OF gs cs nil rs]
  from a iu b nd c ns show ?thesis
    by (simp add: hs del: run_handlers.simps)
qed

section \<open>Callback re-dispatch\<close>

text \<open>
  Claim C2, as stated, fails in its last part: the final response is the second
  response, and a second handler that asks for a further callback leaves the key
  \<open>callback\<close> in the request attributes of the final response.
\<close>

theorem callback_left_in_response_counterexample:
  "map_sum id requestAttributes
     (main_response sample_env (default_config []) (sample_request ''OrderPizza'')) =
   Inr (Some [(''callback'', ''Again'')])"
  by code_simp

text \<open>
  Claim C2, amended. When the response of the handler chain carries a \<open>callback\<close> key and
  the second invocation of the intent resolver returns a response, that invocation
  receives the request with the first response's session state and with the request
  attributes without the key; the final response is the second response with the
  messages of the first followed by its own, and the session state of the request
  becomes that of the second response. The request attributes of the final response are
  those of the second response.
\<close>

theorem callback_redispatch:
  assumes "get_intent E lex_payload = Inr lex_intent"
    and "run_handlers (handlers E cfg) lex_payload = (Inr (Some r1), rq)"
    and "requestAttributes r1 = Some d"
    and "map_of d ''callback'' = Some cb"
    and "call_handler_for_file E cb
           (rq\<lparr>rq_sessionState := sessionState r1, rq_requestAttributes := Some (pop_callback d)\<rparr>)
           (package_name cfg) = (Inr r2, rq2)"
  shows "dispatch E cfg lex_payload =
           (Inr (r2\<lparr>messages := messages r1 @ messages r2\<rparr>),
            rq2\<lparr>rq_sessionState := sessionState r2\<rparr>) \<and>
         map_of (pop_callback d) ''callback'' = None"
proof -
  have "map_of (pop_callback d) ''callback'' = None"
    by (auto simp: pop_callback_def map_of_eq_None_iff)
  moreover have "dispatch E cfg lex_payload =
           (Inr (r2\<lparr>messages := messages r1 @ messages r2\<rparr>),
            rq2\<lparr>rq_sessionState := sessionState r2\<rparr>)"
    using assms
    by (simp add: dispatch_def run_callback_def has_callback_def Let_def)
  ultimately show ?thesis by simp
qed

theorem callback_redispatch_witness:
  "map_sum id messages
     (fst (dispatch sample_env (default_config []) (sample_request ''OrderPizza''))) =
   Inr [LexPlainText ''Ordered'', LexPlainText ''Confirmed'']"
proof -
  let ?cfg = "default_config []"
  let ?p = "sample_request ''OrderPizza''"
  let ?rq = "?p\<lparr>rq_sessionState := ordered_session\<rparr>"
  let ?r1 = "\<lparr>sessionState = ordered_session, messages = [LexPlainText ''Ordered''],
              requestAttributes = Some [(''callback'', ''ConfirmOrder'')]\<rparr>"
  let ?r2 = "\<lparr>sessionState = ordered_session, messages = [LexPlainText ''Confirmed''],
              requestAttributes = Some [(''callback'', ''Again'')]\<rparr>"
  let ?rq2 = "?rq\<lparr>rq_requestAttributes := Some []\<rparr>"
  have gi: "get_intent sample_env ?p = Inr \<lparr>intent_name = ''OrderPizza'', intent_state = None, slots = []\<rparr>"
    by code_simp
  have rh: "run_handlers (handlers sample_env ?cfg) ?p = (Inr (Some ?r1), ?rq)"
    by code_simp
  have ra: "requestAttributes ?r1 = Some [(''callback'', ''ConfirmOrder'')]"
    by simp
  have cb: "map_of [(''callback'', ''ConfirmOrder'')] ''callback'' = Some ''ConfirmOrder''"
    by simp
  have call: "call_handler_for_file sample_env ''ConfirmOrder''
           (?rq\<lparr>rq_sessionState := sessionState ?r1,
                 rq_requestAttributes := Some (pop_callback [(''callback'', ''ConfirmOrder'')])\<rparr>)
           (package_name ?cfg) = (Inr ?r2, ?rq2)"
    by code_simp
  from callback_redispatch [OF gi rh ra cb call]
  show ?thesis by simp
qed

section \<open>The outermost boundary\<close>




end
